theory Spec2Isabelle
  imports Main "HOL-Library.Sublist"
begin

section \<open>Values of the host language\<close>

text \<open>
  The program is TypeScript on Node. A thrown value is either an \<open>Error\<close> instance, of
  which the code reads only \<open>message\<close>, or something else; every handler of the program
  distinguishes the two with \<open>error instanceof Error ? error.message : 'Unknown error'\<close>.
\<close>

datatype fault = ErrorObj string | NonError

fun fault_message :: "fault \<Rightarrow> string" where
  "fault_message (ErrorObj m) = m"
| "fault_message NonError = ''Unknown error''"

text \<open>
  Numbers are restricted to the integers and \<open>NaN\<close>, which is all that \<open>parseInt\<close> returns
  on the short decimal strings a port is written with (beyond \<open>2 ^ 53\<close> the host rounds; that
  is not modelled).
\<close>

datatype jsnum = Num int | NaN

datatype jsval =
    JUndefined | JNull | JBool bool | JStr string | JNumber jsnum
  | JArray "jsval list" | JObject "(string \<times> jsval) list" | JOpaque string

fun num_truthy :: "jsnum \<Rightarrow> bool" where
  "num_truthy (Num n) = (n \<noteq> 0)"
| "num_truthy NaN = False"

subsection \<open>Printing a number inside a template literal\<close>

definition digit_char :: "nat \<Rightarrow> char" where
  "digit_char d = ''0123456789'' ! d"

fun string_of_nat :: "nat \<Rightarrow> string" where
  "string_of_nat n =
     (if n < 10 then [digit_char n] else string_of_nat (n div 10) @ [digit_char (n mod 10)])"

declare string_of_nat.simps [simp del]

definition string_of_int :: "int \<Rightarrow> string" where
  "string_of_int i = (if i < 0 then CHR ''-'' # string_of_nat (nat (- i)) else string_of_nat (nat i))"

fun string_of_num :: "jsnum \<Rightarrow> string" where
  "string_of_num (Num n) = string_of_int n"
| "string_of_num NaN = ''NaN''"

subsection \<open>\<open>parseInt\<close> with no radix\<close>

text \<open>
  Leading white space is dropped, then an optional sign, then an optional \<open>0x\<close> prefix that
  selects radix 16; the longest prefix of digits of the radix is read, and no digit at all
  gives \<open>NaN\<close>.
\<close>

definition is_space :: "char \<Rightarrow> bool" where
  "is_space c = (c \<in> set [CHR '' '', CHR 0x09, CHR 0x0A, CHR 0x0B, CHR 0x0C, CHR 0x0D])"

definition digit_value :: "char \<Rightarrow> nat option" where
  "digit_value c =
     (let n = (of_char c :: nat) in
      if 48 \<le> n \<and> n \<le> 57 then Some (n - 48)
      else if 97 \<le> n \<and> n \<le> 102 then Some (n - 87)
      else if 65 \<le> n \<and> n \<le> 70 then Some (n - 55)
      else None)"

definition is_digit_of :: "nat \<Rightarrow> char \<Rightarrow> bool" where
  "is_digit_of radix c = (case digit_value c of None \<Rightarrow> False | Some d \<Rightarrow> d < radix)"

definition digits_value :: "nat \<Rightarrow> string \<Rightarrow> nat" where
  "digits_value radix ds = foldl (\<lambda>acc c. acc * radix + (case digit_value c of None \<Rightarrow> 0 | Some d \<Rightarrow> d)) 0 ds"

fun strip_sign :: "string \<Rightarrow> bool \<times> string" where
  "strip_sign [] = (False, [])"
| "strip_sign (c # cs) =
     (if c = CHR ''-'' then (True, cs) else if c = CHR ''+'' then (False, cs) else (False, c # cs))"

fun strip_radix :: "string \<Rightarrow> nat \<times> string" where
  "strip_radix (a # b # cs) =
     (if a = CHR ''0'' \<and> (b = CHR ''x'' \<or> b = CHR ''X'') then (16, cs) else (10, a # b # cs))"
| "strip_radix cs = (10, cs)"

definition parseInt :: "string \<Rightarrow> jsnum" where
  "parseInt s =
     (let (negative, s1) = strip_sign (dropWhile is_space s);
          (radix, s2) = strip_radix s1;
          ds = takeWhile (is_digit_of radix) s2
      in if ds = [] then NaN
         else Num (if negative then - int (digits_value radix ds) else int (digits_value radix ds)))"

section \<open>Ambient configuration\<close>

text \<open>
  \<open>process.env\<close> maps names to strings. The code never asks whether a variable is defined,
  only whether it is truthy: an undefined variable and one set to the empty string are
  treated alike by \<open>!process.env.X\<close> and by \<open>process.env.X || default\<close>.
\<close>

type_synonym env = "string \<rightharpoonup> string"

definition truthy :: "string option \<Rightarrow> bool" where
  "truthy v = (case v of None \<Rightarrow> False | Some s \<Rightarrow> s \<noteq> [])"

definition or_default :: "string option \<Rightarrow> string \<Rightarrow> string" where
  "or_default v d = (case v of None \<Rightarrow> d | Some s \<Rightarrow> if s = [] then d else s)"

section \<open>Probe results\<close>

datatype status = Success | Error

record HealthCheckResult =
  service :: string
  status :: status
  message :: string
  details :: "(string \<times> jsval) list option"

text \<open>
  What a settled promise of a probe holds. \<open>Fulfilled None\<close> is the \<open>null\<close> of a skipped
  probe. Where a promise may stay pending for ever, its outcome is a \<open>settled option\<close>,
  and \<open>None\<close> is the promise that never settles.
\<close>

datatype settled = Fulfilled "HealthCheckResult option" | Rejected fault

section \<open>The dependencies\<close>

record client_config =
  host :: "string option"
  port :: jsnum
  database :: "string option"
  user :: "string option"
  password :: "string option"
  rejectUnauthorized :: bool

datatype pg_call = NewClient client_config | ClientConnect | ClientQuery string | ClientEnd

text \<open>The requests sent to the cloud services, with the region of the client.\<close>

datatype aws_call = HeadBucket string string | GetIdentityVerificationAttributes string string

text \<open>
  What a TCP socket under connection emits. The program listens to \<open>connect\<close> and \<open>error\<close>
  (an error carries a message and possibly a code); the socket's own idle \<open>timeout\<close> event,
  armed by the \<open>timeout\<close> option, has no listener.
\<close>

datatype sock_event = Connect | SockError string "string option" | IdleTimeout

text \<open>
  The responses of the outside world are a parameter of every probe. Each awaited call
  answers or throws:
  \<^item> \<open>pg_connect\<close>, \<open>pg_end\<close>: \<open>Some f\<close> when the call throws \<open>f\<close>;
  \<^item> \<open>pg_query\<close>: the fault, or the \<open>current_time\<close> column of each returned row
    (\<open>None\<close> where a row has no such column);
  \<^item> \<open>s3_send\<close> for region and bucket: \<open>Some f\<close> when the head request throws;
  \<^item> \<open>ses_send\<close> for region and identity: the fault, or the \<open>VerificationStatus\<close>
    found under the identity, if any;
  \<^item> \<open>createConnection\<close> for host and port: the fault it throws at once (Node refuses a port
    that is \<open>NaN\<close> or outside \<open>0..65535\<close> with a \<open>RangeError\<close>), or the events the socket
    would emit if it were left alone, those due before the 5000 ms timer and those due after.
\<close>

record world =
  pg_connect :: "client_config \<Rightarrow> fault option"
  pg_query :: "client_config \<Rightarrow> string \<Rightarrow> fault + jsval option list"
  pg_end :: "client_config \<Rightarrow> fault option"
  s3_send :: "string \<Rightarrow> string \<Rightarrow> fault option"
  ses_send :: "string \<Rightarrow> string \<Rightarrow> fault + string option"
  createConnection :: "string \<Rightarrow> jsnum \<Rightarrow> fault + sock_event list \<times> sock_event list"

section \<open>The probes\<close>

subsection \<open>Application port\<close>

definition checkPort :: "env \<Rightarrow> HealthCheckResult" where
  "checkPort e =
     (let port = or_default (e ''PORT'') ''3000'' in
      \<lparr>service = ''Application Port'',
       status = Success,
       message = ''Application is running on port '' @ port,
       details = Some [(''running'', JBool True),
                       (''environment'', JStr (or_default (e ''ENV'') ''development''))]\<rparr>)"

subsection \<open>Database\<close>

definition database_failed :: "fault \<Rightarrow> HealthCheckResult" where
  "database_failed error =
     \<lparr>service = ''PostgreSQL Database'',
      status = Error,
      message = ''Database connection failed: '' @ fault_message error,
      details = Some [(''connected'', JBool False),
                      (''issue'', JStr ''Connection refused or authentication failed'')]\<rparr>"

text \<open>
  The probe is an \<open>async\<close> function whose awaited calls all answer or throw, so its promise
  settles. It returns what the promise holds, and the calls it made on the client, in
  order. Reading \<open>result.rows[0].current_time\<close> throws a \<open>TypeError\<close> when no row came back;
  that is inside the \<open>try\<close> as well, after \<open>client.end()\<close>.
\<close>

definition checkDatabase :: "env \<Rightarrow> world \<Rightarrow> settled \<times> pg_call list" where
  "checkDatabase e w =
     (if \<not> truthy (e ''DB_HOST'') \<or> \<not> truthy (e ''DB_NAME'') \<or> \<not> truthy (e ''DB_USERNAME'')
         \<or> \<not> truthy (e ''DB_PASSWORD'')
      then (Fulfilled None, [])
      else
        let cfg = \<lparr>host = e ''DB_HOST'',
                   port = parseInt (or_default (e ''DB_PORT'') ''5432''),
                   database = e ''DB_NAME'',
                   user = e ''DB_USERNAME'',
                   password = e ''DB_PASSWORD'',
                   rejectUnauthorized = False\<rparr>;
            sql = ''SELECT NOW() as current_time''
        in case pg_connect w cfg of
             Some error \<Rightarrow> (Fulfilled (Some (database_failed error)), [NewClient cfg, ClientConnect])
           | None \<Rightarrow>
              (case pg_query w cfg sql of
                 Inl error \<Rightarrow>
                   (Fulfilled (Some (database_failed error)),
                    [NewClient cfg, ClientConnect, ClientQuery sql])
               | Inr rows \<Rightarrow>
                  (case pg_end w cfg of
                     Some error \<Rightarrow>
                       (Fulfilled (Some (database_failed error)),
                        [NewClient cfg, ClientConnect, ClientQuery sql, ClientEnd])
                   | None \<Rightarrow>
                      (case rows of
                         [] \<Rightarrow>
                           (Fulfilled (Some (database_failed (ErrorObj
                              ''Cannot read properties of undefined (reading 'current_time')''))),
                            [NewClient cfg, ClientConnect, ClientQuery sql, ClientEnd])
                       | row # _ \<Rightarrow>
                           (Fulfilled (Some
                              \<lparr>service = ''PostgreSQL Database'',
                               status = Success,
                               message = ''Successfully connected to database'',
                               details = Some [(''connected'', JBool True),
                                               (''responseTime'', JStr ''Fast''),
                                               (''currentTime'',
                                                  case row of None \<Rightarrow> JUndefined | Some t \<Rightarrow> t)]\<rparr>),
                            [NewClient cfg, ClientConnect, ClientQuery sql, ClientEnd])))))"

subsection \<open>Object store\<close>

definition s3_failed :: "fault \<Rightarrow> HealthCheckResult" where
  "s3_failed error =
     \<lparr>service = ''AWS S3'',
      status = Error,
      message = ''S3 access failed: '' @ fault_message error,
      details = Some [(''accessible'', JBool False),
                      (''issue'', JStr ''Access denied or bucket not found'')]\<rparr>"

text \<open>The probe returns what its promise holds and the requests it sent.\<close>

definition checkS3 :: "env \<Rightarrow> world \<Rightarrow> settled \<times> aws_call list" where
  "checkS3 e w =
     (if \<not> truthy (e ''S3_BUCKET_NAME'') then (Fulfilled None, [])
      else
        let region = or_default (e ''AWS_REGION'') ''us-east-1'';
            bucketName = e ''S3_BUCKET_NAME''
        in if \<not> truthy bucketName
           then (Fulfilled (Some (s3_failed
                   (ErrorObj ''S3_BUCKET_NAME environment variable is not set''))), [])
           else case s3_send w region (or_default bucketName []) of
                  Some error \<Rightarrow>
                    (Fulfilled (Some (s3_failed error)),
                     [HeadBucket region (or_default bucketName [])])
                | None \<Rightarrow>
                    (Fulfilled (Some
                       \<lparr>service = ''AWS S3'',
                        status = Success,
                        message = ''Successfully accessed S3 bucket'',
                        details = Some [(''accessible'', JBool True),
                                        (''permissions'', JStr ''Valid'')]\<rparr>),
                     [HeadBucket region (or_default bucketName [])]))"

subsection \<open>Email service\<close>

definition ses_failed :: "fault \<Rightarrow> HealthCheckResult" where
  "ses_failed error =
     \<lparr>service = ''AWS SES'',
      status = Error,
      message = ''SES access failed: '' @ fault_message error,
      details = Some [(''accessible'', JBool False),
                      (''issue'', JStr ''Access denied or email not verified'')]\<rparr>"

definition checkSES :: "env \<Rightarrow> world \<Rightarrow> settled \<times> aws_call list" where
  "checkSES e w =
     (if \<not> truthy (e ''SES_FROM_EMAIL'') then (Fulfilled None, [])
      else
        let region = or_default (e ''AWS_REGION'') ''us-east-1'';
            fromEmail = e ''SES_FROM_EMAIL''
        in if \<not> truthy fromEmail
           then (Fulfilled (Some (ses_failed
                   (ErrorObj ''SES_FROM_EMAIL environment variable is not set''))), [])
           else case ses_send w region (or_default fromEmail []) of
                  Inl error \<Rightarrow>
                    (Fulfilled (Some (ses_failed error)),
                     [GetIdentityVerificationAttributes region (or_default fromEmail [])])
                | Inr verificationStatus \<Rightarrow>
                    (Fulfilled (Some
                       \<lparr>service = ''AWS SES'',
                        status = Success,
                        message = ''Successfully connected to SES'',
                        details = Some [(''accessible'', JBool True),
                                        (''emailVerified'',
                                           JBool (verificationStatus = Some ''Success''))]\<rparr>),
                     [GetIdentityVerificationAttributes region (or_default fromEmail [])]))"

subsection \<open>Raw reachability\<close>

text \<open>
  The probe builds its promise by hand. The executor opens the socket, arms a timer of
  5000 ms and registers a listener for \<open>connect\<close> and one for \<open>error\<close>; each of the three
  callbacks calls \<open>resolve\<close>. The state below is what the callbacks act on:
  \<^item> \<open>timer_pending\<close>: the timer is armed and has neither fired nor been cleared;
  \<^item> \<open>socket_destroyed\<close>: \<open>socket.destroy()\<close> has been called;
  \<^item> \<open>resolved\<close>: the value the promise is settled with, kept from the first call of
    \<open>resolve\<close> (a promise ignores later calls);
  \<^item> \<open>resolve_calls\<close>: how many times \<open>resolve\<close> has been called.
\<close>

record dns_state =
  timer_pending :: bool
  socket_destroyed :: bool
  resolved :: "HealthCheckResult option"
  resolve_calls :: nat

definition resolve :: "HealthCheckResult \<Rightarrow> dns_state \<Rightarrow> dns_state" where
  "resolve r st =
     st\<lparr>resolved := (case resolved st of None \<Rightarrow> Some r | Some first \<Rightarrow> Some first),
        resolve_calls := Suc (resolve_calls st)\<rparr>"

definition timeout_ms :: nat where
  "timeout_ms = 5000"

definition dns_timed_out :: "string \<Rightarrow> jsnum \<Rightarrow> HealthCheckResult" where
  "dns_timed_out testHost testPort =
     \<lparr>service = ''DNS/Port Connectivity'',
      status = Error,
      message = ''Connection timeout to '' @ testHost @ '':'' @ string_of_num testPort,
      details = Some [(''hostname'', JStr testHost),
                      (''port'', JNumber testPort),
                      (''timeout'', JStr (string_of_nat timeout_ms @ ''ms'')),
                      (''accessible'', JBool False)]\<rparr>"

definition dns_connected :: "string \<Rightarrow> jsnum \<Rightarrow> HealthCheckResult" where
  "dns_connected testHost testPort =
     \<lparr>service = ''DNS/Port Connectivity'',
      status = Success,
      message = ''Successfully connected to '' @ testHost @ '':'' @ string_of_num testPort,
      details = Some [(''hostname'', JStr testHost),
                      (''port'', JNumber testPort),
                      (''accessible'', JBool True),
                      (''responseTime'', JStr ''Fast'')]\<rparr>"

definition dns_failed :: "string \<Rightarrow> jsnum \<Rightarrow> string \<Rightarrow> string option \<Rightarrow> HealthCheckResult" where
  "dns_failed testHost testPort error_message error_code =
     \<lparr>service = ''DNS/Port Connectivity'',
      status = Error,
      message = ''Failed to connect to '' @ testHost @ '':'' @ string_of_num testPort @ '': ''
                @ error_message,
      details = Some [(''hostname'', JStr testHost),
                      (''port'', JNumber testPort),
                      (''accessible'', JBool False),
                      (''error'', JStr (or_default error_code ''Unknown error''))]\<rparr>"

text \<open>The three callbacks, as written.\<close>

definition on_timer :: "string \<Rightarrow> jsnum \<Rightarrow> dns_state \<Rightarrow> dns_state" where
  "on_timer testHost testPort st =
     resolve (dns_timed_out testHost testPort) (st\<lparr>socket_destroyed := True\<rparr>)"

definition on_connect :: "string \<Rightarrow> jsnum \<Rightarrow> dns_state \<Rightarrow> dns_state" where
  "on_connect testHost testPort st =
     resolve (dns_connected testHost testPort)
       (st\<lparr>timer_pending := False, socket_destroyed := True\<rparr>)"

definition on_error :: "string \<Rightarrow> jsnum \<Rightarrow> string \<Rightarrow> string option \<Rightarrow> dns_state \<Rightarrow> dns_state" where
  "on_error testHost testPort error_message error_code st =
     resolve (dns_failed testHost testPort error_message error_code)
       (st\<lparr>timer_pending := False, socket_destroyed := True\<rparr>)"

text \<open>
  The event loop runs one callback at a time. A timer runs its callback once, and only if
  it was not cleared before; a destroyed socket emits neither \<open>connect\<close> nor \<open>error\<close>; the
  idle \<open>timeout\<close> event of the socket finds no listener.
\<close>

datatype event = TimerDue | Emitted sock_event

fun deliver :: "string \<Rightarrow> jsnum \<Rightarrow> dns_state \<Rightarrow> event \<Rightarrow> dns_state" where
  "deliver testHost testPort st TimerDue =
     (if timer_pending st then on_timer testHost testPort (st\<lparr>timer_pending := False\<rparr>) else st)"
| "deliver testHost testPort st (Emitted Connect) =
     (if socket_destroyed st then st else on_connect testHost testPort st)"
| "deliver testHost testPort st (Emitted (SockError error_message error_code)) =
     (if socket_destroyed st then st
      else on_error testHost testPort error_message error_code st)"
| "deliver testHost testPort st (Emitted IdleTimeout) = st"

definition executor_done :: dns_state where
  "executor_done =
     \<lparr>timer_pending = True, socket_destroyed = False, resolved = None, resolve_calls = 0\<rparr>"

definition timeline :: "sock_event list \<times> sock_event list \<Rightarrow> event list" where
  "timeline evs = map Emitted (fst evs) @ [TimerDue] @ map Emitted (snd evs)"

definition opt_truthy :: "jsnum option \<Rightarrow> bool" where
  "opt_truthy p = (case p of None \<Rightarrow> False | Some n \<Rightarrow> num_truthy n)"

text \<open>The target: call-time arguments first, then the configuration, then the defaults.\<close>

definition test_host :: "env \<Rightarrow> string option \<Rightarrow> string" where
  "test_host e hostname =
     (if truthy hostname then or_default hostname []
      else or_default (e ''DNS_CHECK_HOST'') ''google.com'')"

definition test_port :: "env \<Rightarrow> jsnum option \<Rightarrow> jsnum" where
  "test_port e port_arg =
     (case port_arg of
        None \<Rightarrow> parseInt (or_default (e ''DNS_CHECK_PORT'') ''80'')
      | Some n \<Rightarrow> if num_truthy n then n else parseInt (or_default (e ''DNS_CHECK_PORT'') ''80''))"

text \<open>
  The probe returns what its promise comes to and, when a socket was opened, the state the
  callbacks leave behind once every event of the timeline has had its turn. A fault thrown
  by \<open>createConnection\<close> inside the executor rejects the promise.
\<close>

definition checkDNSPort ::
  "env \<Rightarrow> world \<Rightarrow> string option \<Rightarrow> jsnum option \<Rightarrow> settled option \<times> dns_state option" where
  "checkDNSPort e w hostname port_arg =
     (if \<not> truthy hostname \<and> \<not> opt_truthy port_arg \<and> \<not> truthy (e ''DNS_CHECK_HOST'')
         \<and> \<not> truthy (e ''DNS_CHECK_PORT'')
      then (Some (Fulfilled None), None)
      else
        let testHost = test_host e hostname;
            testPort = test_port e port_arg
        in case createConnection w testHost testPort of
             Inl error \<Rightarrow> (Some (Rejected error), None)
           | Inr evs \<Rightarrow>
               let st = foldl (deliver testHost testPort) executor_done (timeline evs)
               in (case resolved st of None \<Rightarrow> None | Some r \<Rightarrow> Some (Fulfilled (Some r)),
                   Some st))"

section \<open>The orchestrator\<close>

subsection \<open>\<open>Promise.allSettled\<close>\<close>

text \<open>
  \<open>Promise.allSettled\<close> keeps one slot for each promise of the array it is given. When the
  promise at some index settles, its outcome is written to the slot of that index; once
  every slot is written, the combined promise is fulfilled with the slots. The order in
  which the promises settle is not decided by the program: it is the parameter \<open>order\<close>,
  the indices in the order of settlement. A promise that stays pending writes nothing. The
  result is \<open>None\<close> when the combined promise stays pending.
\<close>

definition settle :: "settled option list \<Rightarrow> settled option list \<Rightarrow> nat \<Rightarrow> settled option list" where
  "settle promises values index =
     (if index < length promises then
        (case promises ! index of None \<Rightarrow> values | Some r \<Rightarrow> values[index := Some r])
      else values)"

fun all_written :: "settled option list \<Rightarrow> settled list option" where
  "all_written [] = Some []"
| "all_written (None # values) = None"
| "all_written (Some r # values) =
     (case all_written values of None \<Rightarrow> None | Some rs \<Rightarrow> Some (r # rs))"

definition allSettled :: "settled option list \<Rightarrow> nat list \<Rightarrow> settled list option" where
  "allSettled promises order =
     all_written (foldl (settle promises) (replicate (length promises) None) order)"

subsection \<open>\<open>runAllHealthChecks\<close>\<close>

definition services :: "string list" where
  "services =
     [''Application Port'', ''PostgreSQL Database'', ''AWS S3'', ''AWS SES'',
      ''DNS/Port Connectivity'']"

text \<open>
  \<open>services[index]\<close> is read for a rejected promise only. The array of outcomes has one
  entry for each of the five promises, so the index is below five; beyond the table the
  host would give \<open>undefined\<close>, written here as the empty name.
\<close>

definition service_at :: "nat \<Rightarrow> string" where
  "service_at index = (if index < length services then services ! index else [])"

definition check_failed :: "nat \<Rightarrow> fault \<Rightarrow> HealthCheckResult" where
  "check_failed index reason =
     \<lparr>service = service_at index,
      status = Error,
      message = ''Health check failed: '' @ fault_message reason,
      details = None\<rparr>"

text \<open>The callback given to \<open>forEach\<close>: what it does to \<open>processedResults\<close>.\<close>

fun process_result :: "HealthCheckResult list \<Rightarrow> settled \<Rightarrow> nat \<Rightarrow> HealthCheckResult list" where
  "process_result processedResults (Fulfilled None) index = processedResults"
| "process_result processedResults (Fulfilled (Some v)) index = processedResults @ [v]"
| "process_result processedResults (Rejected reason) index =
     processedResults @ [check_failed index reason]"

fun forEach_results ::
  "settled list \<Rightarrow> nat \<Rightarrow> HealthCheckResult list \<Rightarrow> HealthCheckResult list" where
  "forEach_results [] index processedResults = processedResults"
| "forEach_results (result # results) index processedResults =
     forEach_results results (Suc index) (process_result processedResults result index)"

text \<open>The five promises handed to \<open>Promise.allSettled\<close>, in the order of the array.\<close>

definition promises :: "env \<Rightarrow> world \<Rightarrow> settled option list" where
  "promises e w =
     [Some (Fulfilled (Some (checkPort e))),
      Some (fst (checkDatabase e w)),
      Some (fst (checkS3 e w)),
      Some (fst (checkSES e w)),
      fst (checkDNSPort e w None None)]"

definition runAllHealthChecks :: "env \<Rightarrow> world \<Rightarrow> nat list \<Rightarrow> HealthCheckResult list option" where
  "runAllHealthChecks e w order =
     (case allSettled (promises e w) order of
        None \<Rightarrow> None
      | Some results \<Rightarrow> Some (forEach_results results 0 []))"

section \<open>The transport boundary\<close>

record summary =
  total :: nat
  passed :: nat
  failed :: nat

text \<open>
  The JSON bodies the two handlers send. A report has \<open>status\<close>, \<open>timestamp\<close> and
  \<open>checks\<close>, and \<open>summary\<close> where the handler writes one.
\<close>

record report =
  overall :: string
  timestamp :: string
  checks :: "HealthCheckResult list"
  summary :: "summary option"

record failure =
  failure_status :: string
  failure_message :: string
  failure_error :: string
  failure_timestamp :: string

datatype body =
    ReportBody report
  | FailureBody failure
  | NotImplementedBody string jsval

record response =
  http_status :: nat
  headers :: "(string \<times> string) list"
  body :: body

definition no_cache :: "(string \<times> string) list" where
  "no_cache =
     [(''Cache-Control'', ''no-cache, no-store, must-revalidate''),
      (''Pragma'', ''no-cache''),
      (''Expires'', ''0'')]"

definition hasErrors :: "HealthCheckResult list \<Rightarrow> bool" where
  "hasErrors healthCheckResults = list_ex (\<lambda>result. status result = Error) healthCheckResults"

text \<open>
  The body of \<open>GET\<close> once \<open>runAllHealthChecks\<close> has come back, with the fault it threw or
  with its list; \<open>now\<close> is \<open>new Date().toISOString()\<close>.
\<close>

definition GET_response :: "fault + HealthCheckResult list \<Rightarrow> string \<Rightarrow> response" where
  "GET_response awaited now =
     (case awaited of
        Inr healthCheckResults \<Rightarrow>
          \<lparr>http_status = (if hasErrors healthCheckResults then 503 else 200),
           headers = no_cache,
           body = ReportBody
             \<lparr>overall = (if hasErrors healthCheckResults then ''unhealthy'' else ''healthy''),
              timestamp = now,
              checks = healthCheckResults,
              summary = Some
                \<lparr>total = length healthCheckResults,
                 passed = length (filter (\<lambda>r. status r = Success) healthCheckResults),
                 failed = length (filter (\<lambda>r. status r = Error) healthCheckResults)\<rparr>\<rparr>\<rparr>
      | Inl error \<Rightarrow>
          \<lparr>http_status = 500,
           headers = no_cache,
           body = FailureBody
             \<lparr>failure_status = ''error'',
              failure_message = ''Health check system failure'',
              failure_error = fault_message error,
              failure_timestamp = now\<rparr>\<rparr>)"

text \<open>
  Nothing in \<open>runAllHealthChecks\<close> throws (\<open>Promise.allSettled\<close> does not reject, and the
  code around it only builds lists), so \<open>GET\<close> always takes the first branch. The result is
  \<open>None\<close> when the handler never answers.
\<close>

definition GET :: "env \<Rightarrow> world \<Rightarrow> nat list \<Rightarrow> string \<Rightarrow> response option" where
  "GET e w order now =
     (case runAllHealthChecks e w order of
        None \<Rightarrow> None
      | Some healthCheckResults \<Rightarrow> Some (GET_response (Inr healthCheckResults) now))"

text \<open>
  \<open>POST\<close> reads the request body as JSON (\<open>request_json\<close> is the fault of that, or the
  parsed value) and takes its \<open>service\<close> property. Destructuring \<open>null\<close> throws; any other
  value that is not an object with that property gives \<open>undefined\<close>. A \<open>JObject\<close> lists
  the properties of the parsed object, each name once.
\<close>

fun val_truthy :: "jsval \<Rightarrow> bool" where
  "val_truthy JUndefined = False"
| "val_truthy JNull = False"
| "val_truthy (JBool b) = b"
| "val_truthy (JStr s) = (s \<noteq> [])"
| "val_truthy (JNumber n) = num_truthy n"
| "val_truthy (JArray xs) = True"
| "val_truthy (JObject kvs) = True"
| "val_truthy (JOpaque x) = True"

fun service_of :: "jsval \<Rightarrow> fault + jsval" where
  "service_of JNull =
     Inl (ErrorObj ''Cannot destructure property 'service' of 'body' as it is null.'')"
| "service_of JUndefined =
     Inl (ErrorObj ''Cannot destructure property 'service' of 'body' as it is undefined.'')"
| "service_of (JObject kvs) =
     Inr (case map_of kvs ''service'' of None \<Rightarrow> JUndefined | Some v \<Rightarrow> v)"
| "service_of other = Inr JUndefined"

definition invalid_request :: "fault \<Rightarrow> string \<Rightarrow> response" where
  "invalid_request error now =
     \<lparr>http_status = 400,
      headers = [],
      body = FailureBody
        \<lparr>failure_status = ''error'',
         failure_message = ''Invalid request'',
         failure_error = fault_message error,
         failure_timestamp = now\<rparr>\<rparr>"

definition POST ::
  "fault + jsval \<Rightarrow> env \<Rightarrow> world \<Rightarrow> nat list \<Rightarrow> string \<Rightarrow> response option" where
  "POST request_json e w order now =
     (case request_json of
        Inl error \<Rightarrow> Some (invalid_request error now)
      | Inr body_value \<Rightarrow>
         (case service_of body_value of
            Inl error \<Rightarrow> Some (invalid_request error now)
          | Inr requested \<Rightarrow>
              if val_truthy requested
              then Some
                \<lparr>http_status = 501,
                 headers = [],
                 body = NotImplementedBody
                   ''Individual service checks not implemented yet. Use GET /api/health for all checks.''
                   requested\<rparr>
              else
                (case runAllHealthChecks e w order of
                   None \<Rightarrow> None
                 | Some healthCheckResults \<Rightarrow>
                     Some
                       \<lparr>http_status = (if hasErrors healthCheckResults then 503 else 200),
                        headers = [],
                        body = ReportBody
                          \<lparr>overall = (if hasErrors healthCheckResults then ''unhealthy''
                                      else ''healthy''),
                           timestamp = now,
                           checks = healthCheckResults,
                           summary = None\<rparr>\<rparr>)))"

section \<open>Notions used to state the properties\<close>

text \<open>
  What the race between the socket and the timer comes to, read off the events that are
  due before the timer: the first event that has a listener decides, and the timer decides
  when there is none.
\<close>

fun race_winner :: "string \<Rightarrow> jsnum \<Rightarrow> sock_event list \<Rightarrow> HealthCheckResult" where
  "race_winner h p [] = dns_timed_out h p"
| "race_winner h p (Connect # evs) = dns_connected h p"
| "race_winner h p (SockError m c # evs) = dns_failed h p m c"
| "race_winner h p (IdleTimeout # evs) = race_winner h p evs"

text \<open>The state of a promise on which \<open>resolve\<close> was called once, with \<open>r\<close>.\<close>

definition resolved_once :: "HealthCheckResult \<Rightarrow> dns_state" where
  "resolved_once r =
     \<lparr>timer_pending = False, socket_destroyed = True, resolved = Some r, resolve_calls = 1\<rparr>"

text \<open>
  A result built by the probe declared at index \<open>i\<close> itself: it bears the name declared
  at that index and has details. \<open>sound_at\<close> asks that of a fulfilled promise; \<open>caught\<close>
  says that the promise is not rejected.
\<close>

definition own_result :: "nat \<Rightarrow> HealthCheckResult \<Rightarrow> bool" where
  "own_result i r = (service r = service_at i \<and> details r \<noteq> None)"

fun sound_at :: "nat \<Rightarrow> settled \<Rightarrow> bool" where
  "sound_at i (Fulfilled None) = True"
| "sound_at i (Fulfilled (Some r)) = own_result i r"
| "sound_at i (Rejected f) = True"

fun caught :: "settled \<Rightarrow> bool" where
  "caught (Rejected f) = False"
| "caught (Fulfilled v) = True"

text \<open>Every one of the five promises settles somewhere in \<open>order\<close>.\<close>

definition complete :: "nat list \<Rightarrow> bool" where
  "complete order = (set [0, 1, 2, 3, 4] \<subseteq> set order)"

subsection \<open>Sample configurations and dependencies\<close>

text \<open>
  A world in which every dependency answers, and a socket connects at once unless the port
  is refused; one in which the query fails on an open connection.
\<close>

definition port_refused :: fault where
  "port_refused = ErrorObj ''Port should be >= 0 and < 65536. Received type number (99999).''"

definition answering :: world where
  "answering =
     \<lparr>pg_connect = (\<lambda>cfg. None),
      pg_query = (\<lambda>cfg sql. Inr [Some (JOpaque ''2024-05-01T10:00:00.000Z'')]),
      pg_end = (\<lambda>cfg. None),
      s3_send = (\<lambda>region bucket. None),
      ses_send = (\<lambda>region identity. Inr (Some ''Success'')),
      createConnection = (\<lambda>h p.
        case p of
          NaN \<Rightarrow> Inl port_refused
        | Num n \<Rightarrow> if 0 \<le> n \<and> n \<le> 65535 then Inr ([Connect], []) else Inl port_refused)\<rparr>"

definition no_config :: env where
  "no_config = Map.empty"

definition db_config :: env where
  "db_config =
     [''DB_HOST'' \<mapsto> ''db.internal'', ''DB_NAME'' \<mapsto> ''app'', ''DB_USERNAME'' \<mapsto> ''svc'',
      ''DB_PASSWORD'' \<mapsto> ''secret'']"

definition bad_port_config :: env where
  "bad_port_config = db_config(''DNS_CHECK_PORT'' \<mapsto> ''99999'')"

definition port_only :: env where
  "port_only = [''DNS_CHECK_PORT'' \<mapsto> ''8080'']"

definition observed_order :: "nat list" where
  "observed_order = [4, 2, 0, 3, 1]"

definition query_fails :: world where
  "query_fails = answering\<lparr>pg_query := (\<lambda>cfg sql. Inl (ErrorObj ''Connection terminated unexpectedly''))\<rparr>"

text \<open>A world in which the socket stays silent until after the timer is due.\<close>

definition unresponsive :: world where
  "unresponsive =
     answering\<lparr>createConnection := (\<lambda>h p. Inr ([IdleTimeout], [Connect, SockError ''late'' None]))\<rparr>"

definition host_only :: env where
  "host_only = [''DNS_CHECK_HOST'' \<mapsto> ''example.com'']"

section \<open>The race of the reachability probe\<close>

lemma deliver_resolved_once: "deliver h p (resolved_once r) ev = resolved_once r"
proof (cases ev)
  case TimerDue
  then show ?thesis by (simp add: resolved_once_def)
next
  case (Emitted se)
  then show ?thesis by (cases se) (simp_all add: resolved_once_def)
qed

lemma foldl_deliver_resolved_once: "foldl (deliver h p) (resolved_once r) evs = resolved_once r"
  by (induction evs) (simp_all add: deliver_resolved_once)

lemma timer_first: "deliver h p executor_done TimerDue = resolved_once (dns_timed_out h p)"
  by (simp add: executor_done_def on_timer_def resolve_def resolved_once_def)

lemma connect_first: "deliver h p executor_done (Emitted Connect) = resolved_once (dns_connected h p)"
  by (simp add: executor_done_def on_connect_def resolve_def resolved_once_def)

lemma error_first:
  "deliver h p executor_done (Emitted (SockError m c)) = resolved_once (dns_failed h p m c)"
  by (simp add: executor_done_def on_error_def resolve_def resolved_once_def)

lemma run_timeline:
  "foldl (deliver h p) executor_done (map Emitted early @ TimerDue # evs)
     = resolved_once (race_winner h p early)"
proof (induction early)
  case Nil
  show ?case by (simp add: timer_first foldl_deliver_resolved_once del: deliver.simps)
next
  case (Cons ev early)
  show ?case
  proof (cases ev)
    case Connect
    then show ?thesis by (simp add: connect_first foldl_deliver_resolved_once deliver_resolved_once del: deliver.simps)
  next
    case (SockError m c)
    then show ?thesis by (simp add: error_first foldl_deliver_resolved_once deliver_resolved_once del: deliver.simps)
  next
    case IdleTimeout
    then show ?thesis using Cons.IH by simp
  qed
qed

lemma checkDNSPort_opened:
  assumes "truthy hostname \<or> opt_truthy port_arg \<or> truthy (e ''DNS_CHECK_HOST'') \<or> truthy (e ''DNS_CHECK_PORT'')"
    and "createConnection w (test_host e hostname) (test_port e port_arg) = Inr (early, late)"
  shows "checkDNSPort e w hostname port_arg =
           (Some (Fulfilled (Some (race_winner (test_host e hostname) (test_port e port_arg) early))),
            Some (resolved_once (race_winner (test_host e hostname) (test_port e port_arg) early)))"
proof -
  have run: "foldl (deliver (test_host e hostname) (test_port e port_arg)) executor_done
               (timeline (early, late))
             = resolved_once (race_winner (test_host e hostname) (test_port e port_arg) early)"
    unfolding timeline_def by (simp only: fst_conv snd_conv append_Cons append_Nil run_timeline)
  show ?thesis
    using assms(1) by (simp add: checkDNSPort_def assms(2) run resolved_once_def Let_def del: deliver.simps)
qed


section \<open>Settlement in any order\<close>

lemma length_settle: "length (settle ps vs i) = length vs"
  by (simp add: settle_def split: option.splits)

lemma length_foldl_settle: "length (foldl (settle ps) vs order) = length vs"
  by (induction order arbitrary: vs) (simp_all add: length_settle)

lemma nth_foldl_settle:
  "length vs = length ps \<Longrightarrow> i < length ps \<Longrightarrow>
   foldl (settle ps) vs order ! i =
     (if i \<in> set order then (case ps ! i of None \<Rightarrow> vs ! i | Some r \<Rightarrow> Some r) else vs ! i)"
proof (induction order arbitrary: vs)
  case Nil
  then show ?case by simp
next
  case (Cons k order)
  have len: "length (settle ps vs k) = length ps" using Cons.prems by (simp add: length_settle)
  show ?case
    using Cons.IH [OF len Cons.prems(2)] Cons.prems
    by (auto simp add: settle_def nth_list_update split: option.splits)
qed

lemma all_written_map_Some: "all_written (map Some rs) = Some rs"
  by (induction rs) simp_all

lemma all_written_SomeD: "all_written vs = Some rs \<Longrightarrow> vs = map Some rs"
  by (induction vs arbitrary: rs rule: all_written.induct) (auto split: option.splits)

lemma all_written_iff: "all_written vs = Some rs \<longleftrightarrow> vs = map Some rs"
  using all_written_map_Some all_written_SomeD by auto

lemma allSettled_Some_iff:
  "allSettled ps order = Some rs \<longleftrightarrow>
     ps = map Some rs \<and> (\<forall>i<length ps. i \<in> set order)"
proof -
  let ?vs = "foldl (settle ps) (replicate (length ps) None) order"
  have len: "length ?vs = length ps" by (simp add: length_foldl_settle)
  have nth: "?vs ! i = (if i \<in> set order then ps ! i else None)" if "i < length ps" for i
    using nth_foldl_settle [of "replicate (length ps) None" ps i order] that
    by (simp split: option.splits)
  show ?thesis
  proof
    assume "allSettled ps order = Some rs"
    then have eq: "?vs = map Some rs" by (simp add: allSettled_def all_written_iff)
    have l: "length rs = length ps" using len eq by (metis length_map)
    have a: "i \<in> set order \<and> ps ! i = Some (rs ! i)" if "i < length ps" for i
    proof -
      have "?vs ! i = Some (rs ! i)" using eq that l by simp
      with nth [OF that] show ?thesis by (simp split: if_splits)
    qed
    have "ps = map Some rs" using l a by (intro nth_equalityI) simp_all
    with a show "ps = map Some rs \<and> (\<forall>i<length ps. i \<in> set order)" by blast
  next
    assume h: "ps = map Some rs \<and> (\<forall>i<length ps. i \<in> set order)"
    have "?vs = map Some rs"
    proof (intro nth_equalityI)
      show "length ?vs = length (map Some rs)" using len h by simp
    next
      fix i assume "i < length ?vs"
      then have i: "i < length ps" using len by simp
      show "?vs ! i = map Some rs ! i" using nth [OF i] h i by auto
    qed
    then show "allSettled ps order = Some rs" by (simp add: allSettled_def all_written_iff)
  qed
qed

section \<open>What the probes hand to the orchestrator\<close>

lemma service_at_simps:
  "service_at 0 = ''Application Port''"
  "service_at (Suc 0) = ''PostgreSQL Database''"
  "service_at 2 = ''AWS S3''"
  "service_at 3 = ''AWS SES''"
  "service_at 4 = ''DNS/Port Connectivity''"
  by (simp_all add: service_at_def services_def)

lemma checkPort_own: "own_result 0 (checkPort e)"
  by (simp add: own_result_def checkPort_def service_at_simps)

lemma checkDatabase_sound: "sound_at 1 (fst (checkDatabase e w)) \<and> caught (fst (checkDatabase e w))"
  by (simp add: checkDatabase_def database_failed_def own_result_def service_at_simps Let_def
           split: option.splits sum.splits list.splits)

lemma checkS3_sound: "sound_at 2 (fst (checkS3 e w)) \<and> caught (fst (checkS3 e w))"
  by (simp add: checkS3_def s3_failed_def own_result_def service_at_simps Let_def
           split: option.splits)

lemma checkSES_sound: "sound_at 3 (fst (checkSES e w)) \<and> caught (fst (checkSES e w))"
  by (simp add: checkSES_def ses_failed_def own_result_def service_at_simps Let_def
           split: sum.splits)

lemma race_winner_own: "own_result 4 (race_winner h p early)"
  by (induction h p early rule: race_winner.induct)
     (simp_all add: own_result_def service_at_simps dns_timed_out_def dns_connected_def dns_failed_def)

lemma checkDNSPort_sound:
  "\<exists>s. fst (checkDNSPort e w hostname port_arg) = Some s \<and> sound_at 4 s"
proof (cases "truthy hostname \<or> opt_truthy port_arg \<or> truthy (e ''DNS_CHECK_HOST'')
               \<or> truthy (e ''DNS_CHECK_PORT'')")
  case False
  then show ?thesis by (simp add: checkDNSPort_def)
next
  case True
  show ?thesis
  proof (cases "createConnection w (test_host e hostname) (test_port e port_arg)")
    case (Inl f)
    with True show ?thesis by (auto simp add: checkDNSPort_def Let_def)
  next
    case (Inr evs)
    obtain early late where "evs = (early, late)" by (cases evs)
    with Inr checkDNSPort_opened [OF True, of w early late] show ?thesis
      by (simp add: race_winner_own)
  qed
qed

lemma promises_shape:
  "\<exists>b c d x. promises e w = [Some (Fulfilled (Some (checkPort e))), Some b, Some c, Some d, Some x]
     \<and> sound_at 1 b \<and> caught b \<and> sound_at 2 c \<and> caught c \<and> sound_at 3 d \<and> caught d \<and> sound_at 4 x"
  using checkDatabase_sound [of e w] checkS3_sound [of e w] checkSES_sound [of e w]
    checkDNSPort_sound [of e w None None]
  by (auto simp add: promises_def)

lemma five_cases: "i < 5 \<Longrightarrow> i = 0 \<or> i = 1 \<or> i = 2 \<or> i = 3 \<or> i = (4::nat)"
  by arith

lemma complete_iff: "complete order \<longleftrightarrow> (\<forall>i<5. i \<in> set order)"
  using five_cases by (auto simp add: complete_def)

lemma process_result_append: "process_result acc s i = acc @ process_result [] s i"
  by (cases "(acc, s, i)" rule: process_result.cases) simp_all

lemma runAll_complete:
  assumes "complete order"
  shows "\<exists>b c d x. promises e w = [Some (Fulfilled (Some (checkPort e))), Some b, Some c, Some d, Some x]
     \<and> sound_at 1 b \<and> caught b \<and> sound_at 2 c \<and> caught c \<and> sound_at 3 d \<and> caught d \<and> sound_at 4 x
     \<and> runAllHealthChecks e w order =
         Some (checkPort e # process_result [] b 1 @ process_result [] c 2 @ process_result [] d 3
                 @ process_result [] x 4)"
proof -
  obtain b c d x where p: "promises e w = [Some (Fulfilled (Some (checkPort e))), Some b, Some c, Some d, Some x]"
    and s: "sound_at 1 b" "caught b" "sound_at 2 c" "caught c" "sound_at 3 d" "caught d" "sound_at 4 x"
    using promises_shape [of e w] by blast
  have "promises e w = map Some [Fulfilled (Some (checkPort e)), b, c, d, x]" using p by simp
  moreover have "\<forall>i<length (promises e w). i \<in> set order"
    using assms p by (simp add: complete_iff)
  ultimately have "allSettled (promises e w) order = Some [Fulfilled (Some (checkPort e)), b, c, d, x]"
    by (simp only: allSettled_Some_iff simp_thms)
  then have "runAllHealthChecks e w order =
         Some (checkPort e # process_result [] b 1 @ process_result [] c 2 @ process_result [] d 3
                 @ process_result [] x 4)"
    apply (simp add: runAllHealthChecks_def del: process_result.simps)
    apply (subst process_result_append [of _ x])
    apply (subst process_result_append [of _ d])
    apply (subst process_result_append [of _ c])
    apply (subst process_result_append [of _ b])
    apply (simp add: eval_nat_numeral del: process_result.simps)
    apply simp
    done
  with p s show ?thesis by blast
qed

section \<open>The names in the returned list\<close>






section \<open>The target of the reachability probe\<close>




section \<open>Evaluation of the samples\<close>

lemmas eval_defs =
  promises_def checkPort_def checkDatabase_def checkS3_def checkSES_def checkDNSPort_def
  truthy_def or_default_def opt_truthy_def test_host_def test_port_def
  parseInt_def is_space_def is_digit_of_def digit_value_def digits_value_def
  answering_def query_fails_def unresponsive_def no_config_def db_config_def bad_port_config_def host_only_def
  port_only_def observed_order_def

lemma complete_observed_order: "complete observed_order"
  by (simp add: complete_def observed_order_def)

section \<open>Fault interception at the per-probe boundary\<close>



section \<open>The report\<close>

lemma passed_failed_total:
  "length (filter (\<lambda>r. status r = Success) hs) + length (filter (\<lambda>r. status r = Error) hs)
     = length hs"
proof (induction hs)
  case Nil
  show ?case by simp
next
  case (Cons h hs)
  then show ?case by (cases "status h") simp_all
qed

lemma hasErrors_iff_failed:
  "hasErrors hs \<longleftrightarrow> 0 < length (filter (\<lambda>r. status r = Error) hs)"
  by (induction hs) (simp_all add: hasErrors_def)

lemma runAll_order_irrelevant:
  assumes "complete order" and "complete order'"
  shows "\<exists>results. runAllHealthChecks e w order = Some results
           \<and> runAllHealthChecks e w order' = Some results"
  using runAll_complete [OF assms(1), of e w] runAll_complete [OF assms(2), of e w] by auto

text \<open>
  C2. The report that \<open>GET\<close> assembles from a list of results has a summary whose total is
  the length of \<open>checks\<close>, whose passed and failed counts add up to the total, and its
  status is \<open>unhealthy\<close> exactly when the failed count is positive. This holds for every
  list, and \<open>GET\<close> answers with the report of the list the orchestrator returned.
\<close>

theorem report_invariant:
  "(\<exists>r s. body (GET_response (Inr hs) now) = ReportBody r \<and> summary r = Some s \<and> checks r = hs
      \<and> total s = length (checks r) \<and> passed s + failed s = total s
      \<and> ((overall r = ''unhealthy'') = (0 < failed s)))
   \<and> (complete order \<longrightarrow>
        (\<exists>results. runAllHealthChecks e w order = Some results
           \<and> GET e w order now = Some (GET_response (Inr results) now)))"
proof
  show "\<exists>r s. body (GET_response (Inr hs) now) = ReportBody r \<and> summary r = Some s \<and> checks r = hs
      \<and> total s = length (checks r) \<and> passed s + failed s = total s
      \<and> ((overall r = ''unhealthy'') = (0 < failed s))"
    by (simp add: GET_response_def passed_failed_total hasErrors_iff_failed)
next
  show "complete order \<longrightarrow>
        (\<exists>results. runAllHealthChecks e w order = Some results
           \<and> GET e w order now = Some (GET_response (Inr results) now))"
  proof
    assume "complete order"
    then obtain results where "runAllHealthChecks e w order = Some results"
      using runAll_order_irrelevant [of order order e w] by blast
    then show "\<exists>results. runAllHealthChecks e w order = Some results
           \<and> GET e w order now = Some (GET_response (Inr results) now)"
      by (simp add: GET_def)
  qed
qed

theorem report_invariant_witness:
  "(\<exists>r s. body (GET_response (Inr [checkPort db_config,
                database_failed (ErrorObj ''Connection terminated unexpectedly'')])
              ''2024-05-01T10:00:00.000Z'') = ReportBody r
      \<and> summary r = Some s \<and> total s = 2 \<and> passed s = 1 \<and> failed s = 1
      \<and> overall r = ''unhealthy'')
   \<and> complete observed_order
   \<and> (\<exists>results. runAllHealthChecks db_config query_fails observed_order = Some results
         \<and> GET db_config query_fails observed_order ''2024-05-01T10:00:00.000Z''
             = Some (GET_response (Inr results) ''2024-05-01T10:00:00.000Z''))"
proof -
  have shape: "\<exists>r s. body (GET_response (Inr [checkPort db_config,
                database_failed (ErrorObj ''Connection terminated unexpectedly'')])
              ''2024-05-01T10:00:00.000Z'') = ReportBody r
      \<and> summary r = Some s \<and> total s = 2 \<and> passed s = 1 \<and> failed s = 1
      \<and> overall r = ''unhealthy''"
    by (simp add: GET_response_def hasErrors_def checkPort_def database_failed_def)
  show ?thesis
    using shape complete_observed_order
      report_invariant [of "[checkPort db_config,
                database_failed (ErrorObj ''Connection terminated unexpectedly'')]"
        "''2024-05-01T10:00:00.000Z''" observed_order db_config query_fails]
    by blast
qed

section \<open>Order and determinism\<close>




text \<open>
  C8. Two runs of \<open>GET\<close> on the same configuration and the same responses of the
  dependencies, whatever the two orders of settlement and the two instants, answer with the
  same HTTP status and with reports that have the same status, the same checks and the same
  summary: the second report is the first with its timestamp replaced.
\<close>

theorem batch_deterministic:
  assumes "complete order" and "complete order'"
  shows "\<exists>r r' rep rep'. GET e w order now = Some r \<and> GET e w order' now' = Some r'
           \<and> body r = ReportBody rep \<and> body r' = ReportBody rep'
           \<and> overall rep' = overall rep \<and> summary rep' = summary rep
           \<and> http_status r' = http_status r
           \<and> timestamp rep = now \<and> rep' = rep\<lparr>timestamp := now'\<rparr>"
proof -
  obtain results where "runAllHealthChecks e w order = Some results"
    and "runAllHealthChecks e w order' = Some results"
    using runAll_order_irrelevant [OF assms, of e w] by blast
  then show ?thesis by (simp add: GET_def GET_response_def)
qed

theorem batch_deterministic_witness:
  "complete observed_order \<and> complete [0, 1, 2, 3, 4]
   \<and> (\<exists>r r' rep rep'.
          GET bad_port_config answering observed_order ''2024-05-01T10:00:00.000Z'' = Some r
        \<and> GET bad_port_config answering [0, 1, 2, 3, 4] ''2024-05-01T10:00:30.000Z'' = Some r'
        \<and> body r = ReportBody rep \<and> body r' = ReportBody rep'
        \<and> overall rep' = overall rep \<and> summary rep' = summary rep
        \<and> http_status r' = http_status r
        \<and> timestamp rep = ''2024-05-01T10:00:00.000Z''
        \<and> rep' = rep\<lparr>timestamp := ''2024-05-01T10:00:30.000Z''\<rparr>)"
proof -
  have h: "complete [0, 1, 2, 3, 4]" by (simp add: complete_def)
  show ?thesis
    using complete_observed_order h
      batch_deterministic [OF complete_observed_order h, of bad_port_config answering
        "''2024-05-01T10:00:00.000Z''" "''2024-05-01T10:00:30.000Z''"]
    by blast
qed

section \<open>Details as the mark of an intercepted fault\<close>

lemma details_process_result:
  "sound_at i s \<Longrightarrow> r \<in> set (process_result [] s i) \<Longrightarrow>
   (details r \<noteq> None \<and> s = Fulfilled (Some r)) \<or> (\<exists>reason. s = Rejected reason \<and> r = check_failed i reason)"
  by (cases "([] :: HealthCheckResult list, s, i)" rule: process_result.cases)
     (simp_all add: own_result_def)

text \<open>
  C10. A result that the orchestrator builds for a rejected promise has no details; a
  result that a probe returns itself, on its success path or from its own handler, has
  details. So an entry of the returned list is without details exactly when it stands for
  a rejected promise.
\<close>

theorem details_mark_interception:
  assumes "complete order"
  shows "\<exists>results. runAllHealthChecks e w order = Some results
           \<and> (\<forall>r. r \<in> set results \<longrightarrow>
                 ((details r = None)
                  = (\<exists>i reason. i < 5 \<and> promises e w ! i = Some (Rejected reason)
                        \<and> r = check_failed i reason)))
           \<and> (\<forall>i reason. details (check_failed i reason) = None)
           \<and> (\<forall>i v. i < 5 \<and> promises e w ! i = Some (Fulfilled (Some v)) \<longrightarrow> details v \<noteq> None)"
proof -
  obtain b c d x where
    p: "promises e w = [Some (Fulfilled (Some (checkPort e))), Some b, Some c, Some d, Some x]"
    and s: "sound_at 1 b" "caught b" "sound_at 2 c" "caught c" "sound_at 3 d" "caught d"
      "sound_at 4 x"
    and r: "runAllHealthChecks e w order =
         Some (checkPort e # process_result [] b 1 @ process_result [] c 2 @ process_result [] d 3
                 @ process_result [] x 4)"
    using runAll_complete [OF assms, of e w] by blast
  let ?results = "checkPort e # process_result [] b 1 @ process_result [] c 2
                   @ process_result [] d 3 @ process_result [] x 4"
  have port: "details (checkPort e) \<noteq> None" by (simp add: checkPort_def)
  have failed_none: "details (check_failed i reason) = None" for i reason
    by (simp add: check_failed_def)
  have own: "details v \<noteq> None" if "i < 5" "promises e w ! i = Some (Fulfilled (Some v))" for i v
    using five_cases [OF that(1)] that(2) p s port by (auto simp add: own_result_def)
  have mark: "(details r = None)
                = (\<exists>i reason. i < 5 \<and> promises e w ! i = Some (Rejected reason)
                      \<and> r = check_failed i reason)"
    if "r \<in> set ?results" for r
  proof
    assume none: "details r = None"
    from that consider "r = checkPort e" | "r \<in> set (process_result [] b 1)"
      | "r \<in> set (process_result [] c 2)" | "r \<in> set (process_result [] d 3)"
      | "r \<in> set (process_result [] x 4)"
      by auto
    then show "\<exists>i reason. i < 5 \<and> promises e w ! i = Some (Rejected reason)
                      \<and> r = check_failed i reason"
    proof cases
      case 1
      with none port show ?thesis by simp
    next
      case 2
      from details_process_result [OF s(1) 2] none s(2) show ?thesis by auto
    next
      case 3
      from details_process_result [OF s(3) 3] none s(4) show ?thesis by auto
    next
      case 4
      from details_process_result [OF s(5) 4] none s(6) show ?thesis by auto
    next
      case 5
      from details_process_result [OF s(7) 5] none
      have "\<exists>reason. x = Rejected reason \<and> r = check_failed 4 reason" by auto
      then have "\<exists>reason. (4::nat) < 5 \<and> promises e w ! 4 = Some (Rejected reason)
                   \<and> r = check_failed 4 reason"
        using p by simp
      then show ?thesis by blast
    qed
  next
    assume "\<exists>i reason. i < 5 \<and> promises e w ! i = Some (Rejected reason)
                      \<and> r = check_failed i reason"
    then show "details r = None" using failed_none by auto
  qed
  from r mark failed_none own show ?thesis by blast
qed

theorem details_mark_interception_witness:
  "complete observed_order
   \<and> (\<exists>results. runAllHealthChecks bad_port_config answering observed_order = Some results
          \<and> (\<forall>r. r \<in> set results \<longrightarrow>
                ((details r = None)
                 = (\<exists>i reason. i < 5
                       \<and> promises bad_port_config answering ! i = Some (Rejected reason)
                       \<and> r = check_failed i reason)))
          \<and> (\<forall>i reason. details (check_failed i reason) = None)
          \<and> (\<forall>i v. i < 5 \<and> promises bad_port_config answering ! i = Some (Fulfilled (Some v))
                 \<longrightarrow> details v \<noteq> None))
   \<and> promises bad_port_config answering ! 4 = Some (Rejected port_refused)
   \<and> promises bad_port_config answering ! 0 = Some (Fulfilled (Some (checkPort bad_port_config)))"
proof -
  have h: "promises bad_port_config answering ! 4 = Some (Rejected port_refused)
    \<and> promises bad_port_config answering ! 0 = Some (Fulfilled (Some (checkPort bad_port_config)))"
    by (simp add: eval_defs)
  show ?thesis
    using complete_observed_order h
      details_mark_interception [OF complete_observed_order, of bad_port_config answering]
    by blast
qed

section \<open>The gate of the database probe\<close>

lemma parseInt_5432: "parseInt ''5432'' = Num 5432"
  by (simp add: parseInt_def is_space_def is_digit_of_def digit_value_def digits_value_def)

text \<open>
  C9. \<open>DB_PORT\<close> is not among the variables the gate of the database probe asks for. When
  \<open>DB_HOST\<close>, \<open>DB_NAME\<close>, \<open>DB_USERNAME\<close> and \<open>DB_PASSWORD\<close> are set and \<open>DB_PORT\<close> is absent
  (or empty), the probe runs: it returns a result, and the client it builds and connects
  has port 5432.
\<close>

theorem database_port_default:
  assumes "truthy (e ''DB_HOST'')" and "truthy (e ''DB_NAME'')" and "truthy (e ''DB_USERNAME'')"
    and "truthy (e ''DB_PASSWORD'')" and "\<not> truthy (e ''DB_PORT'')"
  shows "\<exists>r cfg calls. checkDatabase e w = (Fulfilled (Some r), NewClient cfg # ClientConnect # calls)
           \<and> port cfg = Num 5432 \<and> host cfg = e ''DB_HOST'' \<and> database cfg = e ''DB_NAME''
           \<and> user cfg = e ''DB_USERNAME'' \<and> password cfg = e ''DB_PASSWORD''"
proof -
  have "or_default (e ''DB_PORT'') ''5432'' = ''5432''"
    using assms(5) by (simp add: truthy_def or_default_def split: option.splits)
  then show ?thesis
    using assms(1-4)
    by (simp add: checkDatabase_def parseInt_5432 Let_def
             split: option.splits sum.splits list.splits)
qed

theorem database_port_default_witness:
  "truthy (db_config ''DB_HOST'') \<and> truthy (db_config ''DB_NAME'')
   \<and> truthy (db_config ''DB_USERNAME'') \<and> truthy (db_config ''DB_PASSWORD'')
   \<and> db_config ''DB_PORT'' = None \<and> \<not> truthy (db_config ''DB_PORT'')
   \<and> (\<exists>r cfg calls.
          checkDatabase db_config answering = (Fulfilled (Some r), NewClient cfg # ClientConnect # calls)
        \<and> port cfg = Num 5432 \<and> host cfg = db_config ''DB_HOST''
        \<and> database cfg = db_config ''DB_NAME'' \<and> user cfg = db_config ''DB_USERNAME''
        \<and> password cfg = db_config ''DB_PASSWORD'')"
proof -
  have h1: "truthy (db_config ''DB_HOST'')" by (simp add: db_config_def truthy_def)
  have h2: "truthy (db_config ''DB_NAME'')" by (simp add: db_config_def truthy_def)
  have h3: "truthy (db_config ''DB_USERNAME'')" by (simp add: db_config_def truthy_def)
  have h4: "truthy (db_config ''DB_PASSWORD'')" by (simp add: db_config_def truthy_def)
  have h5: "db_config ''DB_PORT'' = None" by (simp add: db_config_def)
  have h6: "\<not> truthy (db_config ''DB_PORT'')" using h5 by (simp add: truthy_def)
  show ?thesis
    using h1 h2 h3 h4 h5 h6 database_port_default [OF h1 h2 h3 h4 h6, of answering]
    by blast
qed

section \<open>Skipping\<close>




section \<open>The race between the socket and the timer\<close>

lemma race_winner_cases:
  "race_winner h p early = dns_connected h p \<or> race_winner h p early = dns_timed_out h p
   \<or> (\<exists>m c. race_winner h p early = dns_failed h p m c)"
  by (induction h p early rule: race_winner.induct) auto

lemma outcomes_differ:
  "dns_connected h p \<noteq> dns_timed_out h p \<and> dns_connected h p \<noteq> dns_failed h p m c
   \<and> dns_timed_out h p \<noteq> dns_failed h p m c"
  by (simp add: dns_connected_def dns_timed_out_def dns_failed_def)

text \<open>
  C5, as the code has it. Whenever the probe is not skipped and \<open>createConnection\<close> hands
  back a socket, the promise is fulfilled with one result, which is that of the first event
  that has a listener among those due before the timer, and that of the timer when there
  is none. Over the whole timeline, later events included, \<open>resolve\<close> is called once; the
  socket ends destroyed and the timer is no longer pending. The three possible results
  differ from each other.
\<close>

theorem reachability_race:
  assumes "truthy hostname \<or> opt_truthy port_arg \<or> truthy (e ''DNS_CHECK_HOST'')
             \<or> truthy (e ''DNS_CHECK_PORT'')"
    and "createConnection w (test_host e hostname) (test_port e port_arg) = Inr (early, late)"
  shows "\<exists>r. checkDNSPort e w hostname port_arg
                = (Some (Fulfilled (Some r)),
                   Some \<lparr>timer_pending = False, socket_destroyed = True, resolved = Some r,
                         resolve_calls = 1\<rparr>)
           \<and> r = race_winner (test_host e hostname) (test_port e port_arg) early
           \<and> (r = dns_connected (test_host e hostname) (test_port e port_arg)
               \<or> r = dns_timed_out (test_host e hostname) (test_port e port_arg)
               \<or> (\<exists>m c. r = dns_failed (test_host e hostname) (test_port e port_arg) m c))
           \<and> dns_connected (test_host e hostname) (test_port e port_arg)
               \<noteq> dns_timed_out (test_host e hostname) (test_port e port_arg)
           \<and> (\<forall>m c. dns_connected (test_host e hostname) (test_port e port_arg)
                       \<noteq> dns_failed (test_host e hostname) (test_port e port_arg) m c
                   \<and> dns_timed_out (test_host e hostname) (test_port e port_arg)
                       \<noteq> dns_failed (test_host e hostname) (test_port e port_arg) m c)"
  using checkDNSPort_opened [OF assms]
    race_winner_cases [of "test_host e hostname" "test_port e port_arg" early]
    outcomes_differ [of "test_host e hostname" "test_port e port_arg"]
  by (simp add: resolved_once_def)

theorem reachability_race_witness:
  "(truthy None \<or> opt_truthy None \<or> truthy (host_only ''DNS_CHECK_HOST'')
      \<or> truthy (host_only ''DNS_CHECK_PORT''))
   \<and> createConnection unresponsive (test_host host_only None) (test_port host_only None)
       = Inr ([IdleTimeout], [Connect, SockError ''late'' None])
   \<and> checkDNSPort host_only unresponsive None None
       = (Some (Fulfilled (Some (dns_timed_out ''example.com'' (Num 80)))),
          Some \<lparr>timer_pending = False, socket_destroyed = True,
                resolved = Some (dns_timed_out ''example.com'' (Num 80)), resolve_calls = 1\<rparr>)"
proof -
  have given: "truthy None \<or> opt_truthy None \<or> truthy (host_only ''DNS_CHECK_HOST'')
                 \<or> truthy (host_only ''DNS_CHECK_PORT'')"
    by (simp add: host_only_def truthy_def)
  have opened: "createConnection unresponsive (test_host host_only None) (test_port host_only None)
       = Inr ([IdleTimeout], [Connect, SockError ''late'' None])"
    by (simp add: unresponsive_def)
  have target: "test_host host_only None = ''example.com'' \<and> test_port host_only None = Num 80"
    by (simp add: eval_defs)
  show ?thesis
    using given opened target reachability_race [OF given opened]
    by auto
qed

text \<open>
  C5 as stated fails where \<open>createConnection\<close> throws: with \<open>DNS_CHECK_PORT\<close> set to
  \<open>99999\<close> the probe is not skipped, the port is refused inside the executor, and the
  promise is rejected: none of the three outcomes produces a result.
\<close>

theorem reachability_refused_port:
  "truthy (bad_port_config ''DNS_CHECK_PORT'')
   \<and> test_port bad_port_config None = Num 99999
   \<and> createConnection answering (test_host bad_port_config None) (Num 99999) = Inl port_refused
   \<and> checkDNSPort bad_port_config answering None None = (Some (Rejected port_refused), None)"
  by (simp add: eval_defs)

section \<open>The database connection\<close>

text \<open>
  C6 at a failing input: the four variables of the gate are set, the connection opens and
  the query throws. The probe returns its error result having called \<open>connect\<close> and
  \<open>query\<close> on the client, and not \<open>end\<close>.
\<close>

theorem query_fault_leaves_connection_open:
  "checkDatabase db_config query_fails
     = (Fulfilled (Some (database_failed (ErrorObj ''Connection terminated unexpectedly''))),
        [NewClient \<lparr>host = Some ''db.internal'', port = Num 5432, database = Some ''app'',
                    user = Some ''svc'', password = Some ''secret'', rejectUnauthorized = False\<rparr>,
         ClientConnect,
         ClientQuery ''SELECT NOW() as current_time''])
   \<and> ClientEnd \<notin> set (snd (checkDatabase db_config query_fails))"
  by (simp add: eval_defs)

theorem query_fault_leaves_connection_open_witness:
  "truthy (db_config ''DB_HOST'') \<and> truthy (db_config ''DB_NAME'')
   \<and> truthy (db_config ''DB_USERNAME'') \<and> truthy (db_config ''DB_PASSWORD'')
   \<and> fst (checkDatabase db_config query_fails) \<noteq> Fulfilled None
   \<and> snd (checkDatabase db_config query_fails)
       = [NewClient \<lparr>host = Some ''db.internal'', port = Num 5432, database = Some ''app'',
                     user = Some ''svc'', password = Some ''secret'', rejectUnauthorized = False\<rparr>,
          ClientConnect,
          ClientQuery ''SELECT NOW() as current_time'']
   \<and> ClientEnd \<notin> set (snd (checkDatabase db_config query_fails))"
proof -
  have gate: "truthy (db_config ''DB_HOST'') \<and> truthy (db_config ''DB_NAME'')
                \<and> truthy (db_config ''DB_USERNAME'') \<and> truthy (db_config ''DB_PASSWORD'')"
    by (simp add: db_config_def truthy_def)
  show ?thesis
    using gate query_fault_leaves_connection_open by simp
qed

section \<open>The \<open>POST\<close> handler\<close>

text \<open>
  C7, as the code has it. When the body of the request is a JSON value whose \<open>service\<close>
  is truthy, \<open>POST\<close> answers 501 and echoes the requested service. When the body is a JSON
  value other than \<open>null\<close> with no truthy \<open>service\<close>, \<open>POST\<close> runs the batch and answers
  with the HTTP status of \<open>GET\<close> (503 if some check has status error, 200 otherwise) and
  with the report of \<open>GET\<close> without its summary: status, timestamp and checks.
\<close>

theorem post_behaviour:
  "(service_of b = Inr requested \<and> val_truthy requested \<longrightarrow>
      (\<exists>msg. POST (Inr b) e w order now
                = Some \<lparr>http_status = 501, headers = [], body = NotImplementedBody msg requested\<rparr>))
   \<and> (service_of b = Inr requested \<and> \<not> val_truthy requested \<and> complete order \<longrightarrow>
      (\<exists>results g rep.
          runAllHealthChecks e w order = Some results
        \<and> GET e w order now = Some g \<and> body g = ReportBody rep \<and> checks rep = results
        \<and> summary rep \<noteq> None
        \<and> POST (Inr b) e w order now
            = Some \<lparr>http_status = http_status g, headers = [],
                    body = ReportBody (rep\<lparr>summary := None\<rparr>)\<rparr>
        \<and> http_status g = (if list_ex (\<lambda>r. status r = Error) results then 503 else 200)))"
proof (intro conjI impI)
  assume "service_of b = Inr requested \<and> val_truthy requested"
  then show "\<exists>msg. POST (Inr b) e w order now
                = Some \<lparr>http_status = 501, headers = [], body = NotImplementedBody msg requested\<rparr>"
    by (simp add: POST_def)
next
  assume h: "service_of b = Inr requested \<and> \<not> val_truthy requested \<and> complete order"
  then obtain results where "runAllHealthChecks e w order = Some results"
    using runAll_order_irrelevant [of order order e w] by blast
  with h show "\<exists>results g rep.
          runAllHealthChecks e w order = Some results
        \<and> GET e w order now = Some g \<and> body g = ReportBody rep \<and> checks rep = results
        \<and> summary rep \<noteq> None
        \<and> POST (Inr b) e w order now
            = Some \<lparr>http_status = http_status g, headers = [],
                    body = ReportBody (rep\<lparr>summary := None\<rparr>)\<rparr>
        \<and> http_status g = (if list_ex (\<lambda>r. status r = Error) results then 503 else 200)"
    by (simp add: POST_def GET_def GET_response_def hasErrors_def)
qed

theorem post_behaviour_witness:
  "service_of (JObject [(''service'', JStr ''database'')]) = Inr (JStr ''database'')
   \<and> val_truthy (JStr ''database'')
   \<and> (\<exists>msg. POST (Inr (JObject [(''service'', JStr ''database'')])) db_config query_fails
              observed_order ''2024-05-01T10:00:00.000Z''
            = Some \<lparr>http_status = 501, headers = [],
                    body = NotImplementedBody msg (JStr ''database'')\<rparr>)
   \<and> service_of (JObject []) = Inr JUndefined \<and> \<not> val_truthy JUndefined
   \<and> complete observed_order
   \<and> (\<exists>results g rep.
          runAllHealthChecks db_config query_fails observed_order = Some results
        \<and> GET db_config query_fails observed_order ''2024-05-01T10:00:00.000Z'' = Some g
        \<and> body g = ReportBody rep \<and> checks rep = results \<and> summary rep \<noteq> None
        \<and> POST (Inr (JObject [])) db_config query_fails observed_order
              ''2024-05-01T10:00:00.000Z''
            = Some \<lparr>http_status = http_status g, headers = [],
                    body = ReportBody (rep\<lparr>summary := None\<rparr>)\<rparr>
        \<and> http_status g = (if list_ex (\<lambda>r. status r = Error) results then 503 else 200))"
proof -
  have named: "service_of (JObject [(''service'', JStr ''database'')]) = Inr (JStr ''database'')
                 \<and> val_truthy (JStr ''database'')"
    by simp
  have unnamed: "service_of (JObject []) = Inr JUndefined \<and> \<not> val_truthy JUndefined"
    by simp
  note stub = post_behaviour [of "JObject [(''service'', JStr ''database'')]" "JStr ''database''"
    db_config query_fails observed_order "''2024-05-01T10:00:00.000Z''"]
  note full = post_behaviour [of "JObject []" JUndefined
    db_config query_fails observed_order "''2024-05-01T10:00:00.000Z''"]
  have a: "\<exists>msg. POST (Inr (JObject [(''service'', JStr ''database'')])) db_config query_fails
              observed_order ''2024-05-01T10:00:00.000Z''
            = Some \<lparr>http_status = 501, headers = [],
                    body = NotImplementedBody msg (JStr ''database'')\<rparr>"
    using stub named by blast
  have b: "\<exists>results g rep.
          runAllHealthChecks db_config query_fails observed_order = Some results
        \<and> GET db_config query_fails observed_order ''2024-05-01T10:00:00.000Z'' = Some g
        \<and> body g = ReportBody rep \<and> checks rep = results \<and> summary rep \<noteq> None
        \<and> POST (Inr (JObject [])) db_config query_fails observed_order
              ''2024-05-01T10:00:00.000Z''
            = Some \<lparr>http_status = http_status g, headers = [],
                    body = ReportBody (rep\<lparr>summary := None\<rparr>)\<rparr>
        \<and> http_status g = (if list_ex (\<lambda>r. status r = Error) results then 503 else 200)"
    using full unnamed complete_observed_order by blast
  from named unnamed complete_observed_order a b show ?thesis by blast
qed

text \<open>
  C7 as stated fails on the shape of the report: for a body that names no service, the
  report of \<open>POST\<close> has no summary (and the answer no cache headers), where that of
  \<open>GET\<close> on the same run has one.
\<close>

theorem post_report_has_no_summary:
  "service_of (JObject []) = Inr JUndefined
   \<and> POST (Inr (JObject [])) no_config answering observed_order ''2024-05-01T10:00:00.000Z''
       = Some \<lparr>http_status = 200, headers = [],
               body = ReportBody
                 \<lparr>overall = ''healthy'', timestamp = ''2024-05-01T10:00:00.000Z'',
                  checks = [checkPort no_config], summary = None\<rparr>\<rparr>
   \<and> GET no_config answering observed_order ''2024-05-01T10:00:00.000Z''
       = Some \<lparr>http_status = 200, headers = no_cache,
               body = ReportBody
                 \<lparr>overall = ''healthy'', timestamp = ''2024-05-01T10:00:00.000Z'',
                  checks = [checkPort no_config],
                  summary = Some \<lparr>total = 1, passed = 1, failed = 0\<rparr>\<rparr>\<rparr>"
proof -
  have run: "runAllHealthChecks no_config answering observed_order = Some [checkPort no_config]"
    by (simp add: runAllHealthChecks_def allSettled_def settle_def promises_def
          checkDatabase_def checkS3_def checkSES_def checkDNSPort_def truthy_def opt_truthy_def
          no_config_def observed_order_def)
  have port: "status (checkPort no_config) = Success" by (simp add: checkPort_def)
  show ?thesis
    by (simp add: POST_def GET_def GET_response_def run hasErrors_def port)
qed

end
